theory Spec2Isabelle
  imports Complex_Main
begin

section \<open>Workload scoring: a shallow embedding of \<open>WorkloadScoring.workload_scoring\<close>\<close>

text \<open>
  The development follows \<open>projects/workload_scoring/lib.py\<close>. Calendar dates are day
  numbers (\<open>int\<close>), so that \<open>date + timedelta(days=k)\<close> is integer addition and the
  comparisons of the source are comparisons of integers. Python floats are modelled by
  exact reals: \<open>round(x, 2)\<close> is rounding to the nearest hundredth with ties to even,
  \<open>math.sqrt\<close> is the real square root. Every exception the source can raise is a
  value of type \<open>error\<close>.
\<close>

subsection \<open>Exceptions\<close>

datatype error = KeyError | ZeroDivisionError | ValueError | UnboundLocalError

subsection \<open>Numeric helpers of the Python runtime\<close>

text \<open>\<open>round(x)\<close>: nearest integer, a tie goes to the even neighbour.\<close>

definition round_half_even :: "real \<Rightarrow> int" where
  "round_half_even x =
     (let f = \<lfloor>x\<rfloor>; d = x - of_int f
      in if d < 1 / 2 then f
         else if 1 / 2 < d then f + 1
         else if even f then f else f + 1)"

text \<open>\<open>round(x, 2)\<close>.\<close>

definition round2 :: "real \<Rightarrow> real" where
  "round2 x = of_int (round_half_even (x * 100)) / 100"

text \<open>\<open>int(x)\<close> of a float: truncation towards zero.\<close>

definition py_int :: "real \<Rightarrow> int" where
  "py_int x = (if 0 \<le> x then \<lfloor>x\<rfloor> else \<lceil>x\<rceil>)"

text \<open>
  \<open>numpy.mean\<close> of a list of integers. On the empty list numpy returns NaN (with a
  warning, no exception); the model returns 0 there. The value is never consumed: an
  empty history only occurs with at most one interval, and then the variance or the
  standard error raises before the mean is read (lemma \<open>baseline_stats_empty\<close>).
\<close>

definition np_mean :: "int list \<Rightarrow> real" where
  "np_mean xs = (if xs = [] then 0 else of_int (sum_list xs) / of_nat (length xs))"

subsection \<open>Lines 201--213: statistics of the history\<close>

record stats =
  avg_num_of_task_per_week :: real
  var :: real
  std :: real
  ste :: real

text \<open>
  \<open>x_sum / (num_of_intervals - 1)\<close> divides two Python numbers and raises
  ZeroDivisionError on a zero divisor; \<open>mt.sqrt\<close> raises ValueError on a negative
  argument; \<open>std / mt.sqrt(num_of_intervals)\<close> raises ZeroDivisionError when the
  root is zero.
\<close>

definition baseline_stats :: "int list \<Rightarrow> int \<Rightarrow> error + stats" where
  "baseline_stats num_tasks_per_week num_of_intervals =
     (let avg = round2 (np_mean num_tasks_per_week);
          x_values = map (\<lambda>num. round2 ((of_int num - avg) ^ 2)) num_tasks_per_week;
          x_sum = round2 (sum_list x_values)
      in if num_of_intervals - 1 = 0 then Inl ZeroDivisionError
         else
           let v = round2 (x_sum / of_int (num_of_intervals - 1))
           in if v < 0 then Inl ValueError
              else
                let s = round2 (sqrt v)
                in if num_of_intervals < 0 then Inl ValueError
                   else if num_of_intervals = 0 then Inl ZeroDivisionError
                   else Inr \<lparr>avg_num_of_task_per_week = avg, var = v, std = s,
                             ste = round2 (s / sqrt (of_int num_of_intervals))\<rparr>)"

subsection \<open>Lines 403--414: the score\<close>

definition calc_workload_score :: "int \<Rightarrow> int \<Rightarrow> int \<Rightarrow> int" where
  "calc_workload_score left_board right_board current_num_of_tasks =
     (if left_board = 0 \<and> current_num_of_tasks = 0 \<and> right_board = 0 then 0
      else if current_num_of_tasks \<ge> 0 \<and> current_num_of_tasks < left_board then 0
      else if current_num_of_tasks \<ge> left_board \<and> current_num_of_tasks \<le> right_board then 1
      else 2)"

text \<open>Lines 215--218: the borders and the score of one partition.\<close>

definition left_border :: "stats \<Rightarrow> int" where
  "left_border st = py_int (avg_num_of_task_per_week st - ste st)"

definition right_border :: "stats \<Rightarrow> int" where
  "right_border st = py_int (avg_num_of_task_per_week st + ste st)"

definition score_value :: "stats \<Rightarrow> int \<Rightarrow> int" where
  "score_value st num_tasks_per_current_week =
     calc_workload_score (left_border st) (right_border st) num_tasks_per_current_week"

text \<open>
  \<open>int(num_of_all_days / num_of_interval_days)\<close>: true division, which raises on a
  zero divisor, then truncation towards zero.
\<close>

definition py_int_div :: "int \<Rightarrow> int \<Rightarrow> error + int" where
  "py_int_div a b =
     (if b = 0 then Inl ZeroDivisionError else Inr (py_int (of_int a / of_int b)))"

subsection \<open>The input table\<close>

type_synonym date = int

text \<open>
  A cell of the loaded table: an integer, a string, a date or a missing value. The table
  always has the columns \<open>id\<close>, \<open>created\<close> and \<open>updated\<close> (the base select of
  \<open>read_table\<close>); the other columns are the categorical ones.
\<close>

datatype val = IntV int | StrV string | DateV date | Null

record row =
  rid :: int
  created :: date
  updated :: date
  dims :: "(string \<times> val) list"

record dataframe =
  dim_columns :: "string list"
  rows :: "row list"

definition base_columns :: "string list" where
  "base_columns = [''id'', ''created'', ''updated'']"

definition has_column :: "dataframe \<Rightarrow> string \<Rightarrow> bool" where
  "has_column df c = (c \<in> set base_columns \<or> c \<in> set (dim_columns df))"

definition cell_of :: "row \<Rightarrow> string \<Rightarrow> val" where
  "cell_of r c =
     (if c = ''id'' then IntV (rid r)
      else if c = ''created'' then DateV (created r)
      else if c = ''updated'' then DateV (updated r)
      else (case map_of (dims r) c of Some v \<Rightarrow> v | None \<Rightarrow> Null))"

text \<open>\<open>raw_df[column]\<close>: KeyError when the table has no such column.\<close>

definition get_column :: "dataframe \<Rightarrow> string \<Rightarrow> error + val list" where
  "get_column df c =
     (if has_column df c then Inr (map (\<lambda>r. cell_of r c) (rows df)) else Inl KeyError)"

text \<open>\<open>Series.unique()\<close>: the distinct values in order of first appearance.\<close>

fun pd_unique :: "'a list \<Rightarrow> 'a list" where
  "pd_unique [] = []"
| "pd_unique (x # xs) = x # pd_unique (filter (\<lambda>y. y \<noteq> x) xs)"

text \<open>
  \<open>itertools.product(*pools)\<close>, after the equivalent code of the library's documentation:
  \<open>result = [ [] ]\<close>, then for each pool
  \<open>result = [x + [y] for x in result for y in pool]\<close>.
\<close>

definition it_product :: "'a list list \<Rightarrow> 'a list list" where
  "it_product pools =
     foldl (\<lambda>result pool. concat (map (\<lambda>x. map (\<lambda>y. x @ [y]) pool) result)) [ [] ] pools"

text \<open>
  The elementwise \<open>raw_df[col] == values[i]\<close>: a missing value equals nothing, itself
  included.
\<close>

definition val_eq :: "val \<Rightarrow> val \<Rightarrow> bool" where
  "val_eq a b = (a \<noteq> Null \<and> b \<noteq> Null \<and> a = b)"

text \<open>
  Lines 395--401. With no column the mask stays the plain \<open>True\<close> and
  \<open>raw_df[True]\<close> is a column lookup, which raises KeyError.
\<close>

definition get_dataframe_slice :: "dataframe \<Rightarrow> string list \<Rightarrow> val list \<Rightarrow> error + row list" where
  "get_dataframe_slice df columns vals =
     (if \<not> list_all (has_column df) columns then Inl KeyError
      else if columns = [] then Inl KeyError
      else Inr (filter (\<lambda>r. list_all (\<lambda>(col, v). val_eq (cell_of r col) v) (zip columns vals))
                  (rows df)))"

subsection \<open>Lines 179--199: the intervals\<close>

definition df_interval :: "row list \<Rightarrow> date \<Rightarrow> date \<Rightarrow> row list" where
  "df_interval df_slice fst_cur snd_cur =
     filter (\<lambda>r. updated r \<ge> fst_cur \<and> updated r \<le> snd_cur) df_slice"

text \<open>\<open>len(np.unique(df_interval['id']))\<close>.\<close>

definition count_ids :: "row list \<Rightarrow> int" where
  "count_ids rs = int (length (remdups (map rid rs)))"

record loop_state =
  fst_cur_date :: date
  snd_cur_date :: date
  num_tasks_per_week :: "int list"
  num_tasks_per_current_week :: "int option"

definition interval_step :: "row list \<Rightarrow> int \<Rightarrow> int \<Rightarrow> nat \<Rightarrow> loop_state \<Rightarrow> loop_state" where
  "interval_step df_slice delta num_of_intervals i s =
     (let num_of_tasks = count_ids (df_interval df_slice (fst_cur_date s) (snd_cur_date s));
          s' = s\<lparr>fst_cur_date := fst_cur_date s + delta,
                 snd_cur_date := snd_cur_date s + delta\<rparr>
      in if int i \<noteq> num_of_intervals - 1
         then s'\<lparr>num_tasks_per_week := num_tasks_per_week s @ [num_of_tasks]\<rparr>
         else s'\<lparr>num_tasks_per_current_week := Some num_of_tasks\<rparr>)"

text \<open>\<open>for i in range(0, num_of_intervals)\<close>, from the dates of lines 179--183.\<close>

definition interval_loop :: "row list \<Rightarrow> date \<Rightarrow> int \<Rightarrow> int \<Rightarrow> int \<Rightarrow> loop_state" where
  "interval_loop df_slice end_date num_of_all_days num_of_interval_days num_of_intervals =
     fold (interval_step df_slice num_of_interval_days num_of_intervals)
       [0..<nat num_of_intervals]
       \<lparr>fst_cur_date = end_date - num_of_all_days,
        snd_cur_date = end_date - num_of_all_days + num_of_interval_days,
        num_tasks_per_week = [],
        num_tasks_per_current_week = None\<rparr>"

text \<open>
  The dates the loop holds in its \<open>i\<close>-th round, and the count it takes there
  (lemma \<open>interval_loop_eq\<close>).
\<close>

definition window_start :: "date \<Rightarrow> int \<Rightarrow> int \<Rightarrow> nat \<Rightarrow> date" where
  "window_start end_date num_of_all_days num_of_interval_days i =
     end_date - num_of_all_days + int i * num_of_interval_days"

definition window_end :: "date \<Rightarrow> int \<Rightarrow> int \<Rightarrow> nat \<Rightarrow> date" where
  "window_end end_date num_of_all_days num_of_interval_days i =
     end_date - num_of_all_days + (int i + 1) * num_of_interval_days"

definition window_count :: "row list \<Rightarrow> date \<Rightarrow> int \<Rightarrow> int \<Rightarrow> nat \<Rightarrow> int" where
  "window_count df_slice end_date num_of_all_days num_of_interval_days i =
     count_ids (df_interval df_slice
       (window_start end_date num_of_all_days num_of_interval_days i)
       (window_end end_date num_of_all_days num_of_interval_days i))"

text \<open>
  All the counts of one partition, oldest first: the history, then the current interval
  (the list \<open>completed\<close> of the method's docstring).
\<close>

definition completed :: "loop_state \<Rightarrow> int list" where
  "completed s =
     num_tasks_per_week s @
     (case num_tasks_per_current_week s of None \<Rightarrow> [] | Some c \<Rightarrow> [c])"

subsection \<open>Lines 173--218: one element of the cartesian product\<close>

record partition_result =
  pr_score_value :: int
  pr_count_last_period :: int
  pr_count_sem_calc_period :: real
  pr_count_mean_calc_period :: real

text \<open>
  The body of the loop over the product, up to the score. \<open>num_tasks_per_current_week\<close>
  is assigned in the last round of the interval loop only; with no round the name is
  unbound at line 218. The statistics raise before that line whenever there is no
  round, so that branch is never taken.
\<close>

definition process_partition ::
  "dataframe \<Rightarrow> string list \<Rightarrow> int \<Rightarrow> int \<Rightarrow> date \<Rightarrow> val list \<Rightarrow> error + partition_result" where
  "process_partition df columns_list num_of_all_days num_of_interval_days end_date vals =
     (case get_dataframe_slice df columns_list vals of
        Inl e \<Rightarrow> Inl e
      | Inr df_slice \<Rightarrow>
          (case py_int_div num_of_all_days num_of_interval_days of
             Inl e \<Rightarrow> Inl e
           | Inr num_of_intervals \<Rightarrow>
               let s = interval_loop df_slice end_date num_of_all_days num_of_interval_days
                         num_of_intervals
               in (case baseline_stats (num_tasks_per_week s) num_of_intervals of
                     Inl e \<Rightarrow> Inl e
                   | Inr st \<Rightarrow>
                       (case num_tasks_per_current_week s of
                          None \<Rightarrow> Inl UnboundLocalError
                        | Some cur \<Rightarrow>
                            Inr \<lparr>pr_score_value = score_value st cur,
                                 pr_count_last_period = cur,
                                 pr_count_sem_calc_period = ste st,
                                 pr_count_mean_calc_period = avg_num_of_task_per_week st\<rparr>))))"

subsection \<open>Lines 158--171 and 220--228: the output table\<close>

datatype cell = IntCell int | FloatCell real | ValCell val

type_synonym data_dict = "(string \<times> cell list) list"

text \<open>\<open>d[k] = v\<close> on a dictionary kept in insertion order.\<close>

fun dict_set :: "'k \<Rightarrow> 'v \<Rightarrow> ('k \<times> 'v) list \<Rightarrow> ('k \<times> 'v) list" where
  "dict_set k v [] = [(k, v)]"
| "dict_set k v ((k', v') # d) =
     (if k' = k then (k, v) # d else (k', v') # dict_set k v d)"

text \<open>\<open>d[k].append(x)\<close> for a key that is present.\<close>

definition dict_append :: "'k \<Rightarrow> 'x \<Rightarrow> ('k \<times> 'x list) list \<Rightarrow> ('k \<times> 'x list) list" where
  "dict_append k x d = map (\<lambda>(k', l). if k' = k then (k', l @ [x]) else (k', l)) d"

definition stat_columns :: "string list" where
  "stat_columns =
     [''score_value'', ''count_last_period'', ''count_sem_calc_period'',
      ''count_mean_calc_period'']"

definition init_data :: "string list \<Rightarrow> data_dict" where
  "init_data columns_list =
     fold (\<lambda>column data. dict_set column [] data) columns_list
       (map (\<lambda>k. (k, [])) stat_columns)"

fun collect_unique :: "dataframe \<Rightarrow> string list \<Rightarrow> error + val list list" where
  "collect_unique df [] = Inr []"
| "collect_unique df (column # cs) =
     (case get_column df column of
        Inl e \<Rightarrow> Inl e
      | Inr vs \<Rightarrow>
          (case collect_unique df cs of
             Inl e \<Rightarrow> Inl e
           | Inr r \<Rightarrow> Inr (pd_unique vs # r)))"

definition append_row :: "string list \<Rightarrow> val list \<Rightarrow> partition_result \<Rightarrow> data_dict \<Rightarrow> data_dict" where
  "append_row columns_list vals r data =
     fold (\<lambda>(column, v) d. dict_append column (ValCell v) d) (zip columns_list vals)
       (dict_append ''count_mean_calc_period'' (FloatCell (pr_count_mean_calc_period r))
         (dict_append ''count_sem_calc_period'' (FloatCell (pr_count_sem_calc_period r))
           (dict_append ''count_last_period'' (IntCell (pr_count_last_period r))
             (dict_append ''score_value'' (IntCell (pr_score_value r)) data))))"

fun partition_loop ::
  "dataframe \<Rightarrow> string list \<Rightarrow> int \<Rightarrow> int \<Rightarrow> date \<Rightarrow> val list list \<Rightarrow> data_dict \<Rightarrow> error + data_dict" where
  "partition_loop df columns_list num_of_all_days num_of_interval_days end_date [] data = Inr data"
| "partition_loop df columns_list num_of_all_days num_of_interval_days end_date (vals # rest) data =
     (case process_partition df columns_list num_of_all_days num_of_interval_days end_date vals of
        Inl e \<Rightarrow> Inl e
      | Inr r \<Rightarrow>
          partition_loop df columns_list num_of_all_days num_of_interval_days end_date rest
            (append_row columns_list vals r data))"

text \<open>\<open>pd.DataFrame(data=data)\<close>: ValueError unless all columns have the same length.\<close>

definition n_rows :: "data_dict \<Rightarrow> nat" where
  "n_rows data = (case data of [] \<Rightarrow> 0 | (k, l) # _ \<Rightarrow> length l)"

definition pd_DataFrame :: "data_dict \<Rightarrow> error + data_dict" where
  "pd_DataFrame data =
     (if list_all (\<lambda>(k, l). length l = n_rows data) data then Inr data else Inl ValueError)"



subsection \<open>Lines 84--228: the scoring operation\<close>

record scorer =
  raw_df :: "dataframe option"
  out_df :: "data_dict option"

text \<open>
  The result is the value returned (\<open>Some ''load data''\<close>, or \<open>None\<close> at the end of the
  method) or the exception raised, with the object afterwards. \<open>out_df\<close> is assigned
  last, so an exception leaves the object as it was.
\<close>

definition workload_scoring ::
  "scorer \<Rightarrow> string list \<Rightarrow> int \<Rightarrow> int \<Rightarrow> date \<Rightarrow> (error + string option) \<times> scorer" where
  "workload_scoring self columns_list num_of_all_days num_of_interval_days end_date =
     (case raw_df self of
        None \<Rightarrow> (Inr (Some ''load data''), self)
      | Some df \<Rightarrow>
          (case collect_unique df columns_list of
             Inl e \<Rightarrow> (Inl e, self)
           | Inr col_unique_vals \<Rightarrow>
               (case partition_loop df columns_list num_of_all_days num_of_interval_days end_date
                       (it_product col_unique_vals) (init_data columns_list) of
                  Inl e \<Rightarrow> (Inl e, self)
                | Inr data \<Rightarrow>
                    (case pd_DataFrame data of
                       Inl e \<Rightarrow> (Inl e, self)
                     | Inr t \<Rightarrow> (Inr None, self\<lparr>out_df := Some t\<rparr>)))))"

subsection \<open>Notions used to state and prove the properties\<close>







section \<open>Properties\<close>

subsection \<open>Rounding and truncation\<close>

lemma round_half_even_near:
  assumes "of_int k - 1 / 2 < x" "x < of_int k + 1 / 2"
  shows "round_half_even x = k"
proof -
  have "\<lfloor>x\<rfloor> = k \<or> \<lfloor>x\<rfloor> = k - 1"
    using assms by linarith
  then show ?thesis
  proof
    assume "\<lfloor>x\<rfloor> = k"
    with assms show ?thesis by (simp add: round_half_even_def Let_def)
  next
    assume f: "\<lfloor>x\<rfloor> = k - 1"
    with assms have "1 / 2 < x - of_int (k - 1)" by simp
    with f show ?thesis by (simp add: round_half_even_def Let_def)
  qed
qed

lemma round_half_even_of_int: "round_half_even (of_int k) = k"
  by (rule round_half_even_near) simp_all

lemma round_half_even_nonneg: "0 \<le> x \<Longrightarrow> 0 \<le> round_half_even x"
  by (simp add: round_half_even_def Let_def)


lemma round2_of_int: "round2 (of_int k) = of_int k"
proof -
  have "round_half_even (of_int k * 100) = k * 100"
    using round_half_even_of_int [of "k * 100"] by simp
  then show ?thesis by (simp add: round2_def)
qed

lemma round2_0: "round2 0 = 0"
  using round2_of_int [of 0] by simp

lemma round2_nonneg: "0 \<le> x \<Longrightarrow> 0 \<le> round2 x"
  using round_half_even_nonneg [of "x * 100"] by (simp add: round2_def)

lemma py_int_of_int: "py_int (of_int k) = k"
  by (simp add: py_int_def)


subsection \<open>The statistics never fail on two or more intervals\<close>

lemma x_sum_nonneg:
  "0 \<le> round2 (sum_list (map (\<lambda>num. round2 ((of_int num - avg) ^ 2)) xs))"
  by (intro round2_nonneg sum_list_nonneg) (auto intro: round2_nonneg)

lemma baseline_stats_ok:
  assumes "2 \<le> n"
  shows "baseline_stats xs n =
     Inr \<lparr>avg_num_of_task_per_week = round2 (np_mean xs),
          var = round2 (round2 (sum_list (map (\<lambda>num. round2 ((of_int num - round2 (np_mean xs)) ^ 2)) xs))
                  / of_int (n - 1)),
          std = round2 (sqrt (round2 (round2 (sum_list (map (\<lambda>num. round2 ((of_int num - round2 (np_mean xs)) ^ 2)) xs))
                  / of_int (n - 1)))),
          ste = round2 (round2 (sqrt (round2 (round2 (sum_list (map (\<lambda>num. round2 ((of_int num - round2 (np_mean xs)) ^ 2)) xs))
                  / of_int (n - 1)))) / sqrt (of_int n))\<rparr>"
proof -
  let ?xs = "round2 (sum_list (map (\<lambda>num. round2 ((of_int num - round2 (np_mean xs)) ^ 2)) xs))"
  have "0 \<le> ?xs / of_int (n - 1)"
    using assms x_sum_nonneg [of "round2 (np_mean xs)" xs] by simp
  then have "\<not> round2 (?xs / of_int (n - 1)) < 0"
    using round2_nonneg [of "?xs / of_int (n - 1)"] by linarith
  then show ?thesis
    using assms by (simp add: baseline_stats_def Let_def)
qed

lemma baseline_stats_empty: "n \<le> 1 \<Longrightarrow> \<exists>e. baseline_stats [] n = Inl e"
  by (auto simp: baseline_stats_def Let_def round2_0)

lemma baseline_stats_zero:
  assumes "2 \<le> n" "\<forall>x\<in>set xs. x = 0"
  shows "baseline_stats xs n = Inr \<lparr>avg_num_of_task_per_week = 0, var = 0, std = 0, ste = 0\<rparr>"
proof -
  have s: "sum_list xs = 0" using assms(2) by (induction xs) auto
  have m: "np_mean xs = 0" by (simp add: np_mean_def s)
  have x: "sum_list (map (\<lambda>num. round2 ((of_int num - 0) ^ 2)) xs) = 0"
    using assms(2) by (induction xs) (auto simp: round2_0)
  show ?thesis
    unfolding baseline_stats_ok [OF assms(1)] m round2_0 x by (simp add: round2_0)
qed

subsection \<open>The interval loop in closed form\<close>

lemma interval_fold:
  assumes "m \<le> nat n"
  shows "fold (interval_step df_slice d n) [0..<m]
           \<lparr>fst_cur_date = e - a, snd_cur_date = e - a + d,
            num_tasks_per_week = [], num_tasks_per_current_week = None\<rparr>
         = \<lparr>fst_cur_date = window_start e a d m, snd_cur_date = window_end e a d m,
            num_tasks_per_week = map (window_count df_slice e a d) [0..<min m (nat n - 1)],
            num_tasks_per_current_week =
              (if m = nat n \<and> 0 < m then Some (window_count df_slice e a d (m - 1)) else None)\<rparr>"
  using assms
proof (induction m)
  case 0
  then show ?case by (simp add: window_start_def window_end_def)
next
  case (Suc m)
  then have le: "m \<le> nat n" and lt: "m < nat n" by simp_all
  note IH = Suc.IH [OF le]
  let ?f = "interval_step df_slice d n"
  let ?s0 = "\<lparr>fst_cur_date = e - a, snd_cur_date = e - a + d,
            num_tasks_per_week = [], num_tasks_per_current_week = None\<rparr>"
  have step: "fold ?f [0..<Suc m] ?s0 = ?f m (fold ?f [0..<m] ?s0)"
    by simp
  have ws: "window_start e a d m + d = window_start e a d (Suc m)"
    and we: "window_end e a d m + d = window_end e a d (Suc m)"
    by (simp_all add: window_start_def window_end_def algebra_simps)
  show ?case
  proof (cases "nat n = Suc m")
    case True
    then have last: "int m = n - 1"
      and mn: "min m (nat n - Suc 0) = m" "min (Suc m) (nat n - Suc 0) = m"
      by linarith+
    show ?thesis
      unfolding step IH
      by (simp add: True last interval_step_def Let_def mn window_count_def ws we)
  next
    case False
    with lt have notlast: "int m \<noteq> n - 1"
      and mn: "min m (nat n - Suc 0) = m" "min (Suc m) (nat n - Suc 0) = Suc m"
      and ne: "m \<noteq> nat n" "Suc m \<noteq> nat n"
      by linarith+
    show ?thesis
      unfolding step IH
      by (simp add: ne notlast interval_step_def Let_def mn window_count_def ws we)
  qed
qed

lemma interval_loop_eq:
  "interval_loop df_slice e a d n =
     \<lparr>fst_cur_date = window_start e a d (nat n), snd_cur_date = window_end e a d (nat n),
      num_tasks_per_week = map (window_count df_slice e a d) [0..<nat n - 1],
      num_tasks_per_current_week =
        (if 0 < n then Some (window_count df_slice e a d (nat n - 1)) else None)\<rparr>"
  unfolding interval_loop_def
  using interval_fold [of "nat n" n df_slice d e a] by simp

lemma completed_interval_loop:
  "completed (interval_loop df_slice e a d n) = map (window_count df_slice e a d) [0..<nat n]"
proof (cases "0 < n")
  case True
  then have "[0..<nat n] = [0..<nat n - 1] @ [nat n - 1]"
    by (metis Suc_diff_1 upt_Suc_append zero_le zero_less_nat_eq)
  then show ?thesis
    using True by (simp add: completed_def interval_loop_eq)
next
  case False
  then show ?thesis by (simp add: completed_def interval_loop_eq)
qed

lemma count_ids_pos: "r \<in> set rs \<Longrightarrow> 1 \<le> count_ids rs"
proof -
  assume "r \<in> set rs"
  then have "remdups (map rid rs) \<noteq> []" by auto
  then have "0 < length (remdups (map rid rs))" by blast
  then have "Suc 0 \<le> length (remdups (map rid rs))" by linarith
  then show ?thesis unfolding count_ids_def by simp
qed

lemma count_ids_empty: "count_ids [] = 0"
  by (simp add: count_ids_def)


subsection \<open>The score\<close>



subsection \<open>The intervals\<close>

text \<open>
  Claim C5. Both dates of an interval belong to it. A record of the partition whose
  \<open>updated\<close> date is the end date of interval \<open>i\<close> is selected for interval \<open>i\<close>; that
  date is also the start date of interval \<open>i + 1\<close>, and the record is selected for that
  interval too. Hence it counts in each of the two intervals the loop runs through
  (interval days not negative).
\<close>

theorem boundary_dates_inclusive:
  assumes "r \<in> set df_slice" and "0 \<le> d" and "updated r = window_end e a d i"
  shows "r \<in> set (df_interval df_slice (window_start e a d i) (window_end e a d i)) \<and>
         window_start e a d (Suc i) = window_end e a d i \<and>
         r \<in> set (df_interval df_slice (window_start e a d (Suc i)) (window_end e a d (Suc i))) \<and>
         (i < nat n \<longrightarrow> 1 \<le> completed (interval_loop df_slice e a d n) ! i) \<and>
         (Suc i < nat n \<longrightarrow> 1 \<le> completed (interval_loop df_slice e a d n) ! Suc i)"
proof -
  have eq: "window_start e a d (Suc i) = window_end e a d i"
    by (simp add: window_start_def window_end_def)
  have lo: "window_start e a d i \<le> window_end e a d i"
    and hi: "window_end e a d i \<le> window_end e a d (Suc i)"
    using assms(2) by (simp_all add: window_start_def window_end_def algebra_simps)
  have m1: "r \<in> set (df_interval df_slice (window_start e a d i) (window_end e a d i))"
    using assms(1,3) lo by (simp add: df_interval_def)
  have m2: "r \<in> set (df_interval df_slice (window_start e a d (Suc i)) (window_end e a d (Suc i)))"
    using assms(1,3) hi eq by (simp add: df_interval_def)
  have c1: "1 \<le> window_count df_slice e a d i"
    unfolding window_count_def by (rule count_ids_pos [OF m1])
  have c2: "1 \<le> window_count df_slice e a d (Suc i)"
    unfolding window_count_def by (rule count_ids_pos [OF m2])
  show ?thesis
    using eq m1 m2 c1 c2 by (simp add: completed_interval_loop)
qed

theorem boundary_dates_inclusive_witness:
  "completed (interval_loop [\<lparr>rid = 1, created = 0, updated = 7, dims = []\<rparr>] 28 28 7 4) ! 0 \<ge> 1 \<and>
   completed (interval_loop [\<lparr>rid = 1, created = 0, updated = 7, dims = []\<rparr>] 28 28 7 4) ! Suc 0 \<ge> 1"
  using boundary_dates_inclusive [of "\<lparr>rid = 1, created = 0, updated = 7, dims = []\<rparr>"
      "[\<lparr>rid = 1, created = 0, updated = 7, dims = []\<rparr>]" 7 28 28 0 4]
  by (simp add: window_end_def)

text \<open>
  The double count on a concrete table: one record, dated on the border of the first two
  of four intervals, counts once in each of them.
\<close>

lemma boundary_record_counts_twice:
  "completed (interval_loop [\<lparr>rid = 1, created = 0, updated = 7, dims = []\<rparr>] 28 28 7 4)
     = [1, 1, 0, 0]"
  by (simp add: completed_interval_loop window_count_def window_start_def window_end_def
        df_interval_def count_ids_def upt_rec)




subsection \<open>The operation and the object\<close>

text \<open>
  Claim C7. With no table loaded the operation raises nothing: it returns the string
  \<open>load data\<close> and leaves the object as it was, so no output table is made.
\<close>

theorem workload_scoring_without_data:
  assumes "raw_df self = None"
  shows "workload_scoring self columns_list num_of_all_days num_of_interval_days end_date =
           (Inr (Some ''load data''), self)"
  using assms by (simp add: workload_scoring_def)

theorem workload_scoring_without_data_witness:
  "workload_scoring \<lparr>raw_df = None, out_df = None\<rparr> [''assignee_id''] 28 7 17257 =
     (Inr (Some ''load data''), \<lparr>raw_df = None, out_df = None\<rparr>)"
  using workload_scoring_without_data
    [of "\<lparr>raw_df = None, out_df = None\<rparr>" "[''assignee_id'']" 28 7 17257]
  by simp

text \<open>
  Claim C9. A second call with the same arguments, on the object the first call left,
  returns the same value and leaves the same object, output table included. The loaded
  table is never changed, and the value returned does not depend on the output table
  the object held before.
\<close>

theorem workload_scoring_idempotent:
  "workload_scoring (snd (workload_scoring self cs a d e)) cs a d e =
     workload_scoring self cs a d e \<and>
   raw_df (snd (workload_scoring self cs a d e)) = raw_df self \<and>
   fst (workload_scoring (self\<lparr>out_df := x\<rparr>) cs a d e) = fst (workload_scoring self cs a d e) \<and>
   out_df (snd (workload_scoring (self\<lparr>out_df := x\<rparr>) cs a d e)) =
     (case fst (workload_scoring self cs a d e) of
        Inr None \<Rightarrow> out_df (snd (workload_scoring self cs a d e))
      | _ \<Rightarrow> x)"
  by (simp add: workload_scoring_def split: option.splits sum.splits)

subsection \<open>The statistics of a partition\<close>

lemma window_count_zero:
  assumes "\<forall>r\<in>set df_slice. \<not> (window_start e a d i \<le> updated r \<and> updated r \<le> window_end e a d i)"
  shows "window_count df_slice e a d i = 0"
proof -
  have "df_interval df_slice (window_start e a d i) (window_end e a d i) = []"
    using assms by (auto simp: df_interval_def filter_empty_conv)
  then show ?thesis by (simp add: window_count_def count_ids_empty)
qed

text \<open>
  Claim C8. A partition none of whose records falls in any of the \<open>n \<ge> 2\<close> intervals
  raises nothing: mean, variance, standard deviation and standard error are 0, both
  borders are 0, the current count is 0 and the score is 0 (rule 1).
\<close>

theorem zero_partition_scores_zero:
  assumes "get_dataframe_slice df columns_list vals = Inr df_slice"
    and "py_int_div num_of_all_days num_of_interval_days = Inr n"
    and "2 \<le> n"
    and "\<forall>i<nat n. \<forall>r\<in>set df_slice.
           \<not> (window_start end_date num_of_all_days num_of_interval_days i \<le> updated r \<and>
              updated r \<le> window_end end_date num_of_all_days num_of_interval_days i)"
  shows "baseline_stats
           (num_tasks_per_week
              (interval_loop df_slice end_date num_of_all_days num_of_interval_days n)) n
         = Inr \<lparr>avg_num_of_task_per_week = 0, var = 0, std = 0, ste = 0\<rparr> \<and>
         left_border \<lparr>avg_num_of_task_per_week = 0, var = 0, std = 0, ste = 0\<rparr> = 0 \<and>
         right_border \<lparr>avg_num_of_task_per_week = 0, var = 0, std = 0, ste = 0\<rparr> = 0 \<and>
         process_partition df columns_list num_of_all_days num_of_interval_days end_date vals
         = Inr \<lparr>pr_score_value = 0, pr_count_last_period = 0,
                pr_count_sem_calc_period = 0, pr_count_mean_calc_period = 0\<rparr>"
proof -
  let ?s = "interval_loop df_slice end_date num_of_all_days num_of_interval_days n"
  have z: "window_count df_slice end_date num_of_all_days num_of_interval_days i = 0"
    if "i < nat n" for i
    using assms(4) that by (intro window_count_zero) blast
  have hist: "\<forall>x\<in>set (num_tasks_per_week ?s). x = 0"
    using z by (auto simp: interval_loop_eq)
  have cur: "num_tasks_per_current_week ?s = Some 0"
    using assms(3) z [of "nat n - 1"] by (simp add: interval_loop_eq)
  have st: "baseline_stats (num_tasks_per_week ?s) n
      = Inr \<lparr>avg_num_of_task_per_week = 0, var = 0, std = 0, ste = 0\<rparr>"
    by (rule baseline_stats_zero [OF assms(3) hist])
  have l: "left_border \<lparr>avg_num_of_task_per_week = 0, var = 0, std = 0, ste = 0\<rparr> = 0"
    and r: "right_border \<lparr>avg_num_of_task_per_week = 0, var = 0, std = 0, ste = 0\<rparr> = 0"
    by (simp_all add: left_border_def right_border_def py_int_def)
  have "process_partition df columns_list num_of_all_days num_of_interval_days end_date vals
         = Inr \<lparr>pr_score_value = 0, pr_count_last_period = 0,
                pr_count_sem_calc_period = 0, pr_count_mean_calc_period = 0\<rparr>"
    by (simp add: process_partition_def assms(1,2) Let_def st cur score_value_def l r
          calc_workload_score_def)
  with st l r show ?thesis by simp
qed

theorem zero_partition_scores_zero_witness:
  "process_partition
     \<lparr>dim_columns = [''assignee_id'', ''country''],
      rows = [\<lparr>rid = 1, created = 0, updated = 5,
               dims = [(''assignee_id'', IntV 1), (''country'', StrV ''usa'')]\<rparr>,
              \<lparr>rid = 2, created = 0, updated = 12,
               dims = [(''assignee_id'', IntV 2), (''country'', StrV ''russia'')]\<rparr>]\<rparr>
     [''assignee_id'', ''country''] 28 7 28 [IntV 1, StrV ''russia'']
   = Inr \<lparr>pr_score_value = 0, pr_count_last_period = 0,
          pr_count_sem_calc_period = 0, pr_count_mean_calc_period = 0\<rparr>"
  using zero_partition_scores_zero
    [of "\<lparr>dim_columns = [''assignee_id'', ''country''],
      rows = [\<lparr>rid = 1, created = 0, updated = 5,
               dims = [(''assignee_id'', IntV 1), (''country'', StrV ''usa'')]\<rparr>,
              \<lparr>rid = 2, created = 0, updated = 12,
               dims = [(''assignee_id'', IntV 2), (''country'', StrV ''russia'')]\<rparr>]\<rparr>"
      "[''assignee_id'', ''country'']" "[IntV 1, StrV ''russia'']" "[]" 28 7 4 28]
  by (simp add: get_dataframe_slice_def has_column_def cell_of_def val_eq_def py_int_div_def
        py_int_def)









subsection \<open>The cartesian product\<close>







subsection \<open>The dictionary of output columns\<close>













subsection \<open>The loop over the partitions\<close>







subsection \<open>The output table\<close>








subsection \<open>Distinct values in order of first appearance\<close>






subsection \<open>The position of a tuple in the product\<close>







subsection \<open>The rows of the output table\<close>









subsection \<open>Configurations that are not checked\<close>


















end
